theory Spec2Isabelle
  imports Main
begin

section \<open>Data model\<close>

text \<open>
  The service of \<^verbatim>\<open>src/services/countries.service.ts\<close> works on three shapes of a
  country: the creation payload \<^verbatim>\<open>CreateCountryDto\<close>, the partial payload
  \<^verbatim>\<open>UpdateCountryDto\<close> and the stored row \<^verbatim>\<open>Country\<close> of the Prisma client.
\<close>

text \<open>
  Modelled from the spec: the field lists of the DTOs and of the stored rows, whose
  declarations (\<^verbatim>\<open>dtos/createCountry.dto\<close>, \<^verbatim>\<open>dtos/updateCountry.dto\<close>, the Prisma
  schema) are not part of the service file. A country has a system-assigned identifier,
  the natural key \<open>abbreviation\<close> (field \<open>abbreviation_country\<close>), a \<open>name\<close>,
  provider-specific descriptive fields (kept abstract as \<open>details\<close>) and the soft-delete
  flag \<open>deleted\<close> with default \<open>False\<close>; the payloads carry no \<open>deleted\<close> field and no
  identifier. A visit refers to a country by \<open>countryId\<close> and has its own flag.
\<close>

record 'd CreateCountryDto =
  name :: string
  abbreviation_country :: string
  details :: 'd

record 'd Country = "'d CreateCountryDto" +
  id_country :: nat
  deleted :: bool

record 'd UpdateCountryDto =
  upd_name :: "string option"
  upd_abbreviation :: "string option"
  upd_details :: "'d option"

text \<open>
  The \<^verbatim>\<open>data\<close> argument of the client's \<^verbatim>\<open>update\<close>: every column is optional, an absent
  one is left as it is. The service passes an \<^verbatim>\<open>UpdateCountryDto\<close>, a
  \<^verbatim>\<open>CreateCountryDto\<close> or the literal \<^verbatim>\<open>{ deleted: true }\<close>.
\<close>

record 'd CountryUpdateInput = "'d UpdateCountryDto" +
  upd_deleted :: "bool option"

record Visit =
  id_visit :: nat
  countryId :: nat
  visit_deleted :: bool

text \<open>The \<^verbatim>\<open>where\<close> argument of the country queries: absent fields do not filter.\<close>

record CountryWhereInput =
  where_id :: "nat option"
  where_abbreviation :: "string option"
  where_deleted :: "bool option"

definition matches :: "CountryWhereInput \<Rightarrow> 'd Country \<Rightarrow> bool" where
  "matches w c \<longleftrightarrow>
     (case where_id w of None \<Rightarrow> True | Some i \<Rightarrow> id_country c = i) \<and>
     (case where_abbreviation w of None \<Rightarrow> True | Some a \<Rightarrow> abbreviation_country c = a) \<and>
     (case where_deleted w of None \<Rightarrow> True | Some b \<Rightarrow> deleted c = b)"

section \<open>Errors\<close>

text \<open>
  What the store client throws, and what the service throws. The service tests a caught
  value with \<^verbatim>\<open>instanceof Prisma.PrismaClientKnownRequestError\<close> and reads its \<^verbatim>\<open>code\<close>;
  every other failure of the client is \<open>PrismaClientOtherError\<close>. A value the service
  rethrows (\<^verbatim>\<open>throw err\<close>) is wrapped in \<open>StoreError\<close> unchanged.
\<close>

datatype prisma_error =
    PrismaClientKnownRequestError (code: string)
  | PrismaClientOtherError string

datatype error =
    NotFoundError string
  | AlreadyExistsError string
  | StoreError prisma_error
  | UpstreamError string

section \<open>The store client as the service sees it\<close>

text \<open>
  \<^verbatim>\<open>constructor (private readonly repo: typeof prisma)\<close>: the service is parametric in
  its store client. A query takes the state of the database and returns its outcome
  with the state after it; a rejected promise is \<open>Inl\<close>.
\<close>

type_synonym ('s, 'a) query = "'s \<Rightarrow> (prisma_error + 'a) \<times> 's"

record ('s, 'd) repo =
  country_findFirst :: "CountryWhereInput \<Rightarrow> ('s, 'd Country option) query"
  country_findMany :: "CountryWhereInput \<Rightarrow> ('s, 'd Country list) query"
  country_update :: "CountryWhereInput \<Rightarrow> 'd CountryUpdateInput \<Rightarrow> ('s, 'd Country) query"
  country_delete :: "CountryWhereInput \<Rightarrow> ('s, 'd Country) query"
  country_upsert ::
    "CountryWhereInput \<Rightarrow> 'd CreateCountryDto \<Rightarrow> 'd CountryUpdateInput \<Rightarrow> ('s, 'd Country) query"
  country_create :: "'d CreateCountryDto \<Rightarrow> ('s, 'd Country) query"
  visit_updateMany :: "nat \<Rightarrow> bool \<Rightarrow> ('s, nat) query"

text \<open>Passing a payload as the \<^verbatim>\<open>data\<close> / \<^verbatim>\<open>update\<close> argument of the client.\<close>

definition data_of_update :: "'d UpdateCountryDto \<Rightarrow> 'd CountryUpdateInput" where
  "data_of_update u =
     \<lparr>upd_name = upd_name u, upd_abbreviation = upd_abbreviation u,
      upd_details = upd_details u, upd_deleted = None\<rparr>"

definition data_of_create :: "'d CreateCountryDto \<Rightarrow> 'd CountryUpdateInput" where
  "data_of_create d =
     \<lparr>upd_name = Some (name d), upd_abbreviation = Some (abbreviation_country d),
      upd_details = Some (details d), upd_deleted = None\<rparr>"

definition data_deleted :: "bool \<Rightarrow> 'd CountryUpdateInput" where
  "data_deleted b =
     \<lparr>upd_name = None, upd_abbreviation = None, upd_details = None, upd_deleted = Some b\<rparr>"

definition where_none :: CountryWhereInput where
  "where_none = \<lparr>where_id = None, where_abbreviation = None, where_deleted = None\<rparr>"

section \<open>The service\<close>

text \<open>Template literals splice the identifier in decimal.\<close>

fun show_nat :: "nat \<Rightarrow> string" where
  "show_nat n =
     (if n < 10 then [char_of (48 + n)]
      else show_nat (n div 10) @ [char_of (48 + n mod 10)])"

declare show_nat.simps [simp del]

definition dq :: string where
  "dq = [CHR 0x22]"


text \<open>
  \<^verbatim>\<open>sanitizeCountry\<close> and \<^verbatim>\<open>sanitizeCountryAPI\<close> (\<^verbatim>\<open>utils/sanitizeData\<close>) and the
  external adapter's \<^verbatim>\<open>getData\<close> are imported by the service; they are parameters
  \<open>san\<close>, \<open>sanAPI\<close> and \<open>getData\<close> here.
\<close>

definition getCountry ::
  "('s, 'd) repo \<Rightarrow> ('d Country \<Rightarrow> 'o) \<Rightarrow> nat \<Rightarrow> 's \<Rightarrow> (error + 'o) \<times> 's" where
  "getCountry R san i s =
     (case country_findFirst R (where_none\<lparr>where_id := Some i, where_deleted := Some False\<rparr>) s of
        (Inl e, s') \<Rightarrow> (Inl (StoreError e), s')
      | (Inr None, s') \<Rightarrow>
          (Inl (NotFoundError (''Country with id #'' @ show_nat i @ '' not found'')), s')
      | (Inr (Some country), s') \<Rightarrow> (Inr (san country), s'))"

definition getCountries ::
  "('s, 'd) repo \<Rightarrow> ('d Country \<Rightarrow> 'o) \<Rightarrow> 's \<Rightarrow> (error + 'o list) \<times> 's" where
  "getCountries R san s =
     (case country_findMany R (where_none\<lparr>where_deleted := Some False\<rparr>) s of
        (Inl e, s') \<Rightarrow> (Inl (StoreError e), s')
      | (Inr countries, s') \<Rightarrow>
          if length countries = 0 then (Inl (NotFoundError ''Countries not found''), s')
          else (Inr (map san countries), s'))"

definition updateCountry ::
  "('s, 'd) repo \<Rightarrow> ('d Country \<Rightarrow> 'o) \<Rightarrow> nat \<Rightarrow> 'd UpdateCountryDto \<Rightarrow> 's \<Rightarrow> (error + 'o) \<times> 's"
  where
  "updateCountry R san i data s =
     (case country_update R (where_none\<lparr>where_id := Some i\<rparr>) (data_of_update data) s of
        (Inr country, s') \<Rightarrow> (Inr (san country), s')
      | (Inl err, s') \<Rightarrow>
          (case err of
             PrismaClientKnownRequestError c \<Rightarrow>
               if c = ''P2010''
               then (Inl (NotFoundError
                            (''Country with id '' @ dq @ ''#'' @ show_nat i @ dq @ '' not found'')), s')
               else (Inl (StoreError err), s')
           | PrismaClientOtherError m \<Rightarrow> (Inl (StoreError err), s')))"

definition deleteCountry ::
  "('s, 'd) repo \<Rightarrow> ('d Country \<Rightarrow> 'o) \<Rightarrow> nat \<Rightarrow> bool \<Rightarrow> 's \<Rightarrow> (error + 'o) \<times> 's" where
  "deleteCountry R san i hard s =
     (if hard then
        (case country_delete R (where_none\<lparr>where_id := Some i\<rparr>) s of
           (Inl e, s') \<Rightarrow> (Inl (StoreError e), s')
         | (Inr country, s') \<Rightarrow> (Inr (san country), s'))
      else
        (case country_update R (where_none\<lparr>where_id := Some i\<rparr>) (data_deleted True) s of
           (Inl e, s1) \<Rightarrow> (Inl (StoreError e), s1)
         | (Inr updatedCountry, s1) \<Rightarrow>
             (case visit_updateMany R i True s1 of
                (Inl e, s2) \<Rightarrow> (Inl (StoreError e), s2)
              | (Inr n, s2) \<Rightarrow> (Inr (san updatedCountry), s2))))"

definition upsertCountry ::
  "('s, 'd) repo \<Rightarrow> ('d Country \<Rightarrow> 'o) \<Rightarrow> 'd CreateCountryDto \<Rightarrow> 's \<Rightarrow> (error + 'o) \<times> 's"
  where
  "upsertCountry R san data s =
     (case country_upsert R (where_none\<lparr>where_abbreviation := Some (abbreviation_country data)\<rparr>)
             data (data_of_create data) s of
        (Inl e, s') \<Rightarrow> (Inl (StoreError e), s')
      | (Inr country, s') \<Rightarrow> (Inr (san country), s'))"


definition getExternalCountries ::
  "('r \<Rightarrow> 'd CreateCountryDto) \<Rightarrow> (string \<Rightarrow> string + 'r list) \<Rightarrow> error + 'd CreateCountryDto list"
  where
  "getExternalCountries sanAPI getData =
     (case getData [] of
        Inl m \<Rightarrow> Inl (UpstreamError m)
      | Inr countries \<Rightarrow> Inr (map sanAPI countries))"




section \<open>The store\<close>

text \<open>
  The database behind the client: the rows of the two tables in insertion order and the
  next value of the identifier sequence.
\<close>

record 'd store =
  countries :: "'d Country list"
  visits :: "Visit list"
  next_id :: nat

definition apply_data :: "'d CountryUpdateInput \<Rightarrow> 'd Country \<Rightarrow> 'd Country" where
  "apply_data u c =
     c\<lparr>name := (case upd_name u of None \<Rightarrow> name c | Some n \<Rightarrow> n),
       abbreviation_country :=
         (case upd_abbreviation u of None \<Rightarrow> abbreviation_country c | Some a \<Rightarrow> a),
       details := (case upd_details u of None \<Rightarrow> details c | Some x \<Rightarrow> x),
       deleted := (case upd_deleted u of None \<Rightarrow> deleted c | Some b \<Rightarrow> b)\<rparr>"

definition new_country :: "nat \<Rightarrow> 'd CreateCountryDto \<Rightarrow> 'd Country" where
  "new_country i d =
     \<lparr>name = name d, abbreviation_country = abbreviation_country d, details = details d,
      id_country = i, deleted = False\<rparr>"

definition P2002 :: prisma_error where
  "P2002 = PrismaClientKnownRequestError ''P2002''"

definition P2025 :: prisma_error where
  "P2025 = PrismaClientKnownRequestError ''P2025''"

text \<open>
  Modelled from the spec: the persistence store, which is the Prisma client generated
  from the schema of the repository (\<^verbatim>\<open>../db\<close>, not part of the service file). It is
  ``a keyed record store supporting find/create/update/delete/upsert by identifier or by
  a unique natural key, plus cascading update of dependent Visit records'', and it
  ``distinguishes not found and uniqueness violation as reportable conditions''; \<open>name\<close>
  and \<open>abbreviation\<close> are unique among all rows, deleted or not; a hard delete of a
  country leaves the visits that refer to it as they are. The queries follow the
  client's documented behaviour: \<^verbatim>\<open>findFirst\<close> gives the first matching row or
  \<^verbatim>\<open>null\<close>; \<^verbatim>\<open>update\<close> and \<^verbatim>\<open>delete\<close> reject with the known request error \<^verbatim>\<open>P2025\<close>
  (a record the operation depends on was not found) when no row matches;
  \<^verbatim>\<open>create\<close> and \<^verbatim>\<open>update\<close> reject with \<^verbatim>\<open>P2002\<close> (unique constraint failed) and
  write nothing when the row written would share its name or abbreviation with another
  row; \<^verbatim>\<open>upsert\<close> updates the matching row when there is one and creates otherwise;
  \<^verbatim>\<open>updateMany\<close> writes every matching row and gives their number.
\<close>

definition prisma_country_findFirst ::
  "CountryWhereInput \<Rightarrow> ('d store, 'd Country option) query" where
  "prisma_country_findFirst w s = (Inr (find (matches w) (countries s)), s)"

definition prisma_country_findMany ::
  "CountryWhereInput \<Rightarrow> ('d store, 'd Country list) query" where
  "prisma_country_findMany w s = (Inr (filter (matches w) (countries s)), s)"

definition unique_conflict :: "'d Country \<Rightarrow> 'd Country list \<Rightarrow> bool" where
  "unique_conflict c rows \<longleftrightarrow>
     list_ex (\<lambda>r. id_country r \<noteq> id_country c \<and>
                  (name r = name c \<or> abbreviation_country r = abbreviation_country c)) rows"

definition prisma_country_update ::
  "CountryWhereInput \<Rightarrow> 'd CountryUpdateInput \<Rightarrow> ('d store, 'd Country) query" where
  "prisma_country_update w u s =
     (case find (matches w) (countries s) of
        None \<Rightarrow> (Inl P2025, s)
      | Some c \<Rightarrow>
          (let c' = apply_data u c in
           if unique_conflict c' (countries s) then (Inl P2002, s)
           else (Inr c',
                 s\<lparr>countries :=
                      map (\<lambda>r. if id_country r = id_country c then c' else r) (countries s)\<rparr>)))"

text \<open>
  Modelled from the spec: the referential action of the schema on \<^verbatim>\<open>delete\<close>, which is
  not part of the service file. ``Hard delete removes the country entirely but leaves any
  visit referencing it unchanged (dangling reference, expected)'': deleting a country
  writes nothing to the visits and is not refused because of them.
\<close>

definition prisma_country_delete :: "CountryWhereInput \<Rightarrow> ('d store, 'd Country) query" where
  "prisma_country_delete w s =
     (case find (matches w) (countries s) of
        None \<Rightarrow> (Inl P2025, s)
      | Some c \<Rightarrow>
          (Inr c, s\<lparr>countries := filter (\<lambda>r. id_country r \<noteq> id_country c) (countries s)\<rparr>))"

definition prisma_country_create :: "'d CreateCountryDto \<Rightarrow> ('d store, 'd Country) query" where
  "prisma_country_create d s =
     (if list_ex (\<lambda>r. name r = name d \<or> abbreviation_country r = abbreviation_country d)
           (countries s)
      then (Inl P2002, s)
      else (let c = new_country (next_id s) d in
            (Inr c, s\<lparr>countries := countries s @ [c], next_id := Suc (next_id s)\<rparr>)))"

definition prisma_country_upsert ::
  "CountryWhereInput \<Rightarrow> 'd CreateCountryDto \<Rightarrow> 'd CountryUpdateInput \<Rightarrow>
   ('d store, 'd Country) query" where
  "prisma_country_upsert w d u s =
     (case find (matches w) (countries s) of
        None \<Rightarrow> prisma_country_create d s
      | Some c \<Rightarrow> prisma_country_update w u s)"

definition prisma_visit_updateMany :: "nat \<Rightarrow> bool \<Rightarrow> ('d store, nat) query" where
  "prisma_visit_updateMany cid b s =
     (Inr (length (filter (\<lambda>v. countryId v = cid) (visits s))),
      s\<lparr>visits := map (\<lambda>v. if countryId v = cid then v\<lparr>visit_deleted := b\<rparr> else v) (visits s)\<rparr>)"

definition prisma :: "('d store, 'd) repo" where
  "prisma =
     \<lparr>country_findFirst = prisma_country_findFirst,
      country_findMany = prisma_country_findMany,
      country_update = prisma_country_update,
      country_delete = prisma_country_delete,
      country_upsert = prisma_country_upsert,
      country_create = prisma_country_create,
      visit_updateMany = prisma_visit_updateMany\<rparr>"

text \<open>
  The constraints the database keeps: identifiers are unique and below the sequence,
  names and abbreviations are unique.
\<close>

definition store_ok :: "'d store \<Rightarrow> bool" where
  "store_ok s \<longleftrightarrow>
     distinct (map id_country (countries s)) \<and>
     distinct (map abbreviation_country (countries s)) \<and>
     distinct (map name (countries s)) \<and>
     list_all (\<lambda>c. id_country c < next_id s) (countries s)"

section \<open>Sample data\<close>

text \<open>A small database used to run the operations on concrete inputs.\<close>

definition spain :: "string Country" where
  "spain = \<lparr>name = ''Spain'', abbreviation_country = ''ES'', details = ''Madrid'',
            id_country = 1, deleted = False\<rparr>"

definition peru :: "string Country" where
  "peru = \<lparr>name = ''Peru'', abbreviation_country = ''PE'', details = ''Lima'',
           id_country = 2, deleted = True\<rparr>"

definition sample_visits :: "Visit list" where
  "sample_visits =
     [\<lparr>id_visit = 1, countryId = 1, visit_deleted = False\<rparr>,
      \<lparr>id_visit = 2, countryId = 2, visit_deleted = False\<rparr>,
      \<lparr>id_visit = 3, countryId = 1, visit_deleted = False\<rparr>]"

definition sample_store :: "string store" where
  "sample_store = \<lparr>countries = [spain, peru], visits = sample_visits, next_id = 3\<rparr>"


definition chile_dto :: "string CreateCountryDto" where
  "chile_dto = \<lparr>name = ''Chile'', abbreviation_country = ''CL'', details = ''Santiago''\<rparr>"

definition peru_dto :: "string CreateCountryDto" where
  "peru_dto = \<lparr>name = ''Republic of Peru'', abbreviation_country = ''PE'', details = ''Lima''\<rparr>"

text \<open>
  Store clients that fail for reasons of their own: a lost connection on \<^verbatim>\<open>delete\<close>, a
  timeout on \<^verbatim>\<open>updateMany\<close>, and one whose \<^verbatim>\<open>update\<close> rejects with the code
  \<^verbatim>\<open>P2010\<close>.
\<close>

definition failing_repo :: "(string store, string) repo" where
  "failing_repo =
     prisma\<lparr>country_delete := (\<lambda>w s. (Inl (PrismaClientOtherError ''connection lost''), s)),
            visit_updateMany := (\<lambda>i b s. (Inl (PrismaClientOtherError ''timed out''), s))\<rparr>"

definition P2010_repo :: "(string store, string) repo" where
  "P2010_repo =
     prisma\<lparr>country_update := (\<lambda>w u s. (Inl (PrismaClientKnownRequestError ''P2010''), s))\<rparr>"

definition spain_deleted_store :: "string store" where
  "spain_deleted_store = sample_store\<lparr>countries := [spain\<lparr>deleted := True\<rparr>, peru]\<rparr>"

definition chile_store :: "string store" where
  "chile_store = sample_store\<lparr>countries := [spain, peru, new_country 3 chile_dto], next_id := 4\<rparr>"

definition peru_renamed :: "string Country" where
  "peru_renamed = peru\<lparr>name := ''Republic of Peru''\<rparr>"

definition peru_renamed_store :: "string store" where
  "peru_renamed_store = sample_store\<lparr>countries := [spain, peru_renamed]\<rparr>"



definition spain_dto :: "string CreateCountryDto" where
  "spain_dto = \<lparr>name = ''Spain'', abbreviation_country = ''CL'', details = ''Madrid''\<rparr>"

definition chile_store_spain_deleted :: "string store" where
  "chile_store_spain_deleted =
     \<lparr>countries = [spain\<lparr>deleted := True\<rparr>, peru, new_country 3 chile_dto],
      visits = [\<lparr>id_visit = 1, countryId = 1, visit_deleted = True\<rparr>,
                \<lparr>id_visit = 2, countryId = 2, visit_deleted = False\<rparr>,
                \<lparr>id_visit = 3, countryId = 1, visit_deleted = True\<rparr>],
      next_id = 4\<rparr>"





section \<open>The service on the store: what each operation computes\<close>

lemma matches_id [simp]:
  "matches (where_none\<lparr>where_id := Some i\<rparr>) = (\<lambda>c. id_country c = i)"
  by (rule ext) (simp add: matches_def where_none_def)

lemma matches_id_active [simp]:
  "matches (where_none\<lparr>where_id := Some i, where_deleted := Some False\<rparr>)
     = (\<lambda>c. id_country c = i \<and> \<not> deleted c)"
  by (rule ext) (simp add: matches_def where_none_def)

lemma matches_active [simp]:
  "matches (where_none\<lparr>where_deleted := Some False\<rparr>) = (\<lambda>c. \<not> deleted c)"
  by (rule ext) (simp add: matches_def where_none_def)

lemma matches_abbreviation [simp]:
  "matches (where_none\<lparr>where_abbreviation := Some a\<rparr>) = (\<lambda>c. abbreviation_country c = a)"
  by (rule ext) (simp add: matches_def where_none_def)

lemma prisma_sel [simp]:
  "country_findFirst prisma = prisma_country_findFirst"
  "country_findMany prisma = prisma_country_findMany"
  "country_update prisma = prisma_country_update"
  "country_delete prisma = prisma_country_delete"
  "country_upsert prisma = prisma_country_upsert"
  "country_create prisma = prisma_country_create"
  "visit_updateMany prisma = prisma_visit_updateMany"
  by (simp_all add: prisma_def)

lemma getCountries_prisma:
  "getCountries prisma san s =
     (if filter (\<lambda>c. \<not> deleted c) (countries s) = []
      then (Inl (NotFoundError ''Countries not found''), s)
      else (Inr (map san (filter (\<lambda>c. \<not> deleted c) (countries s))), s))"
  by (simp add: getCountries_def prisma_country_findMany_def)

lemma getCountry_prisma:
  "getCountry prisma san i s =
     (case find (\<lambda>c. id_country c = i \<and> \<not> deleted c) (countries s) of
        None \<Rightarrow> (Inl (NotFoundError (''Country with id #'' @ show_nat i @ '' not found'')), s)
      | Some c \<Rightarrow> (Inr (san c), s))"
  by (simp add: getCountry_def prisma_country_findFirst_def split: option.splits)

lemma updateCountry_prisma:
  "updateCountry prisma san i u s =
     (case find (\<lambda>c. id_country c = i) (countries s) of
        None \<Rightarrow> (Inl (StoreError P2025), s)
      | Some c \<Rightarrow>
          (let c' = apply_data (data_of_update u) c in
           if unique_conflict c' (countries s) then (Inl (StoreError P2002), s)
           else (Inr (san c'),
                 s\<lparr>countries := map (\<lambda>r. if id_country r = i then c' else r) (countries s)\<rparr>)))"
  by (auto simp add: updateCountry_def prisma_country_update_def P2025_def P2002_def Let_def
      split: option.splits dest: find_Some_iff[THEN iffD1])



lemma upsertCountry_prisma:
  "upsertCountry prisma san d s =
     (case find (\<lambda>c. abbreviation_country c = abbreviation_country d) (countries s) of
        None \<Rightarrow>
          (if list_ex (\<lambda>r. name r = name d \<or> abbreviation_country r = abbreviation_country d)
                (countries s)
           then (Inl (StoreError P2002), s)
           else (Inr (san (new_country (next_id s) d)),
                 s\<lparr>countries := countries s @ [new_country (next_id s) d],
                   next_id := Suc (next_id s)\<rparr>))
      | Some c \<Rightarrow>
          (let c' = apply_data (data_of_create d) c in
           if unique_conflict c' (countries s) then (Inl (StoreError P2002), s)
           else (Inr (san c'),
                 s\<lparr>countries :=
                     map (\<lambda>r. if id_country r = id_country c then c' else r) (countries s)\<rparr>)))"
  by (simp add: upsertCountry_def prisma_country_upsert_def prisma_country_create_def
      prisma_country_update_def Let_def split: option.splits)

lemma deleteCountry_hard_prisma:
  "deleteCountry prisma san i True s =
     (case find (\<lambda>c. id_country c = i) (countries s) of
        None \<Rightarrow> (Inl (StoreError P2025), s)
      | Some c \<Rightarrow> (Inr (san c), s\<lparr>countries := filter (\<lambda>r. id_country r \<noteq> i) (countries s)\<rparr>))"
  by (auto simp add: deleteCountry_def prisma_country_delete_def
      split: option.splits dest: find_Some_iff[THEN iffD1])

lemma deleteCountry_soft_prisma:
  "deleteCountry prisma san i False s =
     (case find (\<lambda>c. id_country c = i) (countries s) of
        None \<Rightarrow> (Inl (StoreError P2025), s)
      | Some c \<Rightarrow>
          (let c' = apply_data (data_deleted True) c in
           if unique_conflict c' (countries s) then (Inl (StoreError P2002), s)
           else (Inr (san c'),
                 s\<lparr>countries := map (\<lambda>r. if id_country r = i then c' else r) (countries s),
                   visits := map (\<lambda>v. if countryId v = i then v\<lparr>visit_deleted := True\<rparr> else v)
                               (visits s)\<rparr>)))"
  by (auto simp add: deleteCountry_def prisma_country_update_def prisma_visit_updateMany_def
      Let_def split: option.splits dest: find_Some_iff[THEN iffD1])

lemma find_distinct_key:
  "distinct (map k xs) \<Longrightarrow> x \<in> set xs \<Longrightarrow> find (\<lambda>r. k r = k x) xs = Some x"
  by (induction xs) (auto simp: image_iff)

lemma distinct_map_replace:
  "distinct (map k xs) \<Longrightarrow> distinct (map g xs) \<Longrightarrow>
   (\<forall>r\<in>set xs. k r \<noteq> i \<longrightarrow> g r \<noteq> g c') \<Longrightarrow>
   distinct (map g (map (\<lambda>r. if k r = i then c' else r) xs))"
proof (induction xs)
  case Nil
  then show ?case by simp
next
  case (Cons x xs)
  then show ?case by (auto simp: image_iff)
qed

lemma map_key_replace:
  "k c' = i \<Longrightarrow> map k (map (\<lambda>r. if k r = i then c' else r) xs) = map k xs"
  by (induction xs) auto

lemma apply_data_id [simp]: "id_country (apply_data u c) = id_country c"
  by (simp add: apply_data_def)

lemma store_ok_update:
  assumes "store_ok s"
  shows "store_ok (snd (prisma_country_update w u s))"
proof (cases "find (matches w) (countries s)")
  case None
  then show ?thesis using assms by (simp add: prisma_country_update_def)
next
  case (Some c)
  let ?c' = "apply_data u c"
  show ?thesis
  proof (cases "unique_conflict ?c' (countries s)")
    case True
    then show ?thesis using assms Some by (simp add: prisma_country_update_def)
  next
    case False
    let ?rows = "map (\<lambda>r. if id_country r = id_country c then ?c' else r) (countries s)"
    have ids: "map id_country ?rows = map id_country (countries s)"
      by (rule map_key_replace) simp
    have nc: "\<forall>r\<in>set (countries s). id_country r \<noteq> id_country c \<longrightarrow>
                 name r \<noteq> name ?c' \<and> abbreviation_country r \<noteq> abbreviation_country ?c'"
      using False by (auto simp: unique_conflict_def list_ex_iff)
    have d1: "distinct (map abbreviation_country ?rows)"
      using assms nc by (intro distinct_map_replace) (auto simp: store_ok_def)
    have d2: "distinct (map name ?rows)"
      using assms nc by (intro distinct_map_replace) (auto simp: store_ok_def)
    have d0: "distinct (map id_country ?rows)"
    proof -
      have "distinct (map id_country (countries s))"
        using assms by (simp add: store_ok_def)
      then show ?thesis by (simp only: ids)
    qed
    have lt: "list_all (\<lambda>c. id_country c < next_id s) ?rows"
      using assms by (auto simp: store_ok_def list_all_iff)
    show ?thesis
      using Some False d0 d1 d2 lt
      by (simp add: prisma_country_update_def Let_def store_ok_def del: map_map)
  qed
qed

lemma store_ok_create:
  assumes "store_ok s"
  shows "store_ok (snd (prisma_country_create d s))"
  using assms
  by (auto simp: prisma_country_create_def store_ok_def Let_def new_country_def
      list_ex_iff list_all_iff image_iff)

lemma store_ok_delete:
  assumes "store_ok s"
  shows "store_ok (snd (prisma_country_delete w s))"
  using assms
  by (auto simp: prisma_country_delete_def store_ok_def list_all_iff distinct_map_filter
      split: option.splits)

lemma store_ok_upsert:
  assumes "store_ok s"
  shows "store_ok (snd (prisma_country_upsert w d u s))"
  using assms
  by (simp add: prisma_country_upsert_def store_ok_update store_ok_create split: option.splits)

lemma store_ok_updateMany:
  assumes "store_ok s"
  shows "store_ok (snd (prisma_visit_updateMany i b s))"
  using assms by (simp add: prisma_visit_updateMany_def store_ok_def)

lemma no_conflict_same_keys:
  assumes "store_ok s" "c \<in> set (countries s)"
    "id_country c' = id_country c" "name c' = name c"
    "abbreviation_country c' = abbreviation_country c"
  shows "\<not> unique_conflict c' (countries s)"
proof
  assume "unique_conflict c' (countries s)"
  then obtain r where r: "r \<in> set (countries s)" "id_country r \<noteq> id_country c"
    "name r = name c \<or> abbreviation_country r = abbreviation_country c"
    using assms(3-5) by (auto simp: unique_conflict_def list_ex_iff)
  from r(2) have "r \<noteq> c" by auto
  moreover have "inj_on name (set (countries s))" "inj_on abbreviation_country (set (countries s))"
    using assms(1) by (simp_all add: store_ok_def distinct_map)
  ultimately show False using r(1,3) assms(2) by (auto dest: inj_onD)
qed

lemma find_None_list_ex: "find P xs = None \<longleftrightarrow> \<not> list_ex P xs"
  by (auto simp: find_None_iff list_ex_iff)

lemma show_nat_examples:
  "show_nat (Suc 0) = ''1''" "show_nat 1 = ''1''" "show_nat 2 = ''2''"
  "show_nat 7 = ''7''" "show_nat 42 = ''42''"
  by code_simp+

lemma sample_store_ok: "store_ok sample_store"
  by (simp add: store_ok_def sample_store_def spain_def peru_def)

section \<open>The claims\<close>

text \<open>
  C9. \<open>list()\<close> (\<^verbatim>\<open>getCountries\<close>) returns the sanitized sequence of all countries
  whose \<open>deleted\<close> flag is false, in the order of the store, and fails with
  \<open>NotFoundError\<close> exactly when there is none; with any store client whatever it never
  succeeds with an empty sequence.
\<close>

theorem getCountries_active_or_NotFoundError:
  "getCountries prisma san s =
     (if filter (\<lambda>c. \<not> deleted c) (countries s) = []
      then (Inl (NotFoundError ''Countries not found''), s)
      else (Inr (map san (filter (\<lambda>c. \<not> deleted c) (countries s))), s))
   \<and> fst (getCountries R san' t) \<noteq> Inr []"
proof
  show "getCountries prisma san s =
     (if filter (\<lambda>c. \<not> deleted c) (countries s) = []
      then (Inl (NotFoundError ''Countries not found''), s)
      else (Inr (map san (filter (\<lambda>c. \<not> deleted c) (countries s))), s))"
    by (rule getCountries_prisma)
  show "fst (getCountries R san' t) \<noteq> Inr []"
    by (simp add: getCountries_def split: prod.splits sum.splits)
qed

text \<open>
  C7. \<open>get(id)\<close> (\<^verbatim>\<open>getCountry\<close>) returns the sanitized country when a row with that
  identifier and \<open>deleted = false\<close> exists, and fails with \<open>NotFoundError\<close> exactly when
  there is no such row (the identifier is absent, or its row is soft-deleted). After a
  soft delete of an existing country, \<open>get\<close> on its identifier fails with
  \<open>NotFoundError\<close> although a row with that identifier is still stored.
\<close>

theorem getCountry_active_or_NotFoundError:
  "getCountry prisma san i s =
     (case find (\<lambda>c. id_country c = i \<and> \<not> deleted c) (countries s) of
        None \<Rightarrow> (Inl (NotFoundError (''Country with id #'' @ show_nat i @ '' not found'')), s)
      | Some c \<Rightarrow> (Inr (san c), s))
   \<and> ((\<exists>m. fst (getCountry prisma san i s) = Inl (NotFoundError m))
        \<longleftrightarrow> \<not> list_ex (\<lambda>c. id_country c = i \<and> \<not> deleted c) (countries s))
   \<and> (store_ok s \<longrightarrow> list_ex (\<lambda>c. id_country c = i) (countries s) \<longrightarrow>
        (\<exists>m. fst (getCountry prisma san i (snd (deleteCountry prisma san i False s)))
               = Inl (NotFoundError m))
        \<and> list_ex (\<lambda>c. id_country c = i) (countries (snd (deleteCountry prisma san i False s))))"
proof (intro conjI impI)
  show "getCountry prisma san i s =
     (case find (\<lambda>c. id_country c = i \<and> \<not> deleted c) (countries s) of
        None \<Rightarrow> (Inl (NotFoundError (''Country with id #'' @ show_nat i @ '' not found'')), s)
      | Some c \<Rightarrow> (Inr (san c), s))"
    by (rule getCountry_prisma)
  show "(\<exists>m. fst (getCountry prisma san i s) = Inl (NotFoundError m))
        \<longleftrightarrow> \<not> list_ex (\<lambda>c. id_country c = i \<and> \<not> deleted c) (countries s)"
    by (auto simp: getCountry_prisma find_None_list_ex[symmetric] split: option.splits)
next
  assume ok: "store_ok s" and ex: "list_ex (\<lambda>c. id_country c = i) (countries s)"
  from ex obtain c where c: "find (\<lambda>c. id_country c = i) (countries s) = Some c"
    by (cases "find (\<lambda>c. id_country c = i) (countries s)") (auto simp: find_None_list_ex)
  then have cin: "c \<in> set (countries s)" and ci: "id_country c = i"
    by (auto simp: find_Some_iff)
  let ?c' = "apply_data (data_deleted True) c"
  have nc: "\<not> unique_conflict ?c' (countries s)"
    using ok cin by (rule no_conflict_same_keys) (simp_all add: apply_data_def data_deleted_def)
  let ?s' = "snd (deleteCountry prisma san i False s)"
  have rows: "countries ?s' = map (\<lambda>r. if id_country r = i then ?c' else r) (countries s)"
    using c nc by (simp add: deleteCountry_soft_prisma Let_def)
  have del: "deleted ?c'" by (simp add: apply_data_def data_deleted_def)
  have "\<not> list_ex (\<lambda>c. id_country c = i \<and> \<not> deleted c) (countries ?s')"
    unfolding rows using del by (auto simp: list_ex_iff)
  then show "\<exists>m. fst (getCountry prisma san i ?s') = Inl (NotFoundError m)"
    by (auto simp: getCountry_prisma find_None_list_ex[symmetric])
  show "list_ex (\<lambda>c. id_country c = i) (countries ?s')"
  proof -
    have "?c' \<in> set (countries ?s')"
      unfolding rows using cin ci by (auto simp: image_iff)
    moreover have "id_country ?c' = i" using ci by simp
    ultimately show ?thesis unfolding list_ex_iff by blast
  qed
qed

theorem getCountry_active_or_NotFoundError_witness:
  "store_ok sample_store \<and> list_ex (\<lambda>c. id_country c = 1) (countries sample_store)
   \<and> getCountry prisma name 1 sample_store = (Inr ''Spain'', sample_store)
   \<and> fst (getCountry prisma name 2 sample_store) = Inl (NotFoundError ''Country with id #2 not found'')
   \<and> fst (getCountry prisma name 1 (snd (deleteCountry prisma name 1 False sample_store)))
        = Inl (NotFoundError ''Country with id #1 not found'')
   \<and> list_ex (\<lambda>c. id_country c = 1) (countries (snd (deleteCountry prisma name 1 False sample_store)))"
  using getCountry_active_or_NotFoundError [of name 1 sample_store]
    getCountry_active_or_NotFoundError [of name 2 sample_store]
    getCountry_active_or_NotFoundError [of name 1 "snd (deleteCountry prisma name 1 False sample_store)"]
    sample_store_ok
  by (simp add: sample_store_def spain_def peru_def show_nat_examples deleteCountry_soft_prisma
      apply_data_def data_deleted_def unique_conflict_def)

lemma updateCountry_NotFoundError_iff:
  "(\<exists>m. fst (updateCountry R san i u s) = Inl (NotFoundError m)) \<longleftrightarrow>
     fst (country_update R (where_none\<lparr>where_id := Some i\<rparr>) (data_of_update u) s)
       = Inl (PrismaClientKnownRequestError ''P2010'')"
  by (auto simp: updateCountry_def split: prod.splits sum.splits prisma_error.splits)

lemma prisma_country_update_errors:
  "fst (prisma_country_update w u s) = Inl e \<Longrightarrow> e = P2025 \<or> e = P2002"
  by (auto simp: prisma_country_update_def Let_def split: option.splits if_splits)

text \<open>
  C1. \<open>update(id, partialData)\<close> (\<^verbatim>\<open>updateCountry\<close>) does not filter on \<open>deleted\<close>:
  the soft-deleted sample country is updated. For an identifier with no row the store
  client rejects with the known request error \<^verbatim>\<open>P2025\<close>, while the service maps only
  the code \<^verbatim>\<open>P2010\<close> to \<open>NotFoundError\<close>: the raw error comes back, and on this store
  \<open>updateCountry\<close> never fails with \<open>NotFoundError\<close>.
\<close>

theorem updateCountry_missing_id_not_NotFoundError:
  "updateCountry prisma name 7 \<lparr>upd_name = Some ''Chile'', upd_abbreviation = None, upd_details = None\<rparr>
       sample_store
     = (Inl (StoreError (PrismaClientKnownRequestError ''P2025'')), sample_store)
   \<and> (\<forall>m. fst (updateCountry prisma san i u s) \<noteq> Inl (NotFoundError m))
   \<and> updateCountry prisma name 2 \<lparr>upd_name = Some ''Republic of Peru'', upd_abbreviation = None, upd_details = None\<rparr>
       sample_store
     = (Inr ''Republic of Peru'', sample_store\<lparr>countries := [spain, peru\<lparr>name := ''Republic of Peru''\<rparr>]\<rparr>)"
proof (intro conjI allI)
  show "updateCountry prisma name 7 \<lparr>upd_name = Some ''Chile'', upd_abbreviation = None, upd_details = None\<rparr>
       sample_store
     = (Inl (StoreError (PrismaClientKnownRequestError ''P2025'')), sample_store)"
    by (simp add: updateCountry_prisma sample_store_def spain_def peru_def P2025_def)
  show "fst (updateCountry prisma san i u s) \<noteq> Inl (NotFoundError m)" for m
    by (auto simp: updateCountry_prisma Let_def split: option.splits)
  show "updateCountry prisma name 2 \<lparr>upd_name = Some ''Republic of Peru'', upd_abbreviation = None, upd_details = None\<rparr>
       sample_store
     = (Inr ''Republic of Peru'', sample_store\<lparr>countries := [spain, peru\<lparr>name := ''Republic of Peru''\<rparr>]\<rparr>)"
    by (simp add: updateCountry_prisma sample_store_def spain_def peru_def apply_data_def
        data_of_update_def unique_conflict_def)
qed

text \<open>
  C10. \<open>delete(id, hard)\<close> (\<^verbatim>\<open>deleteCountry\<close>) inspects no store error: with any store
  client, it never fails with \<open>NotFoundError\<close> or \<open>AlreadyExistsError\<close>, and an error of
  the client's \<^verbatim>\<open>delete\<close> (hard), \<^verbatim>\<open>update\<close> or \<^verbatim>\<open>updateMany\<close> (soft) comes back
  unchanged; on the store, an identifier with no row gives the store's own \<^verbatim>\<open>P2025\<close>
  in both modes.
\<close>

theorem deleteCountry_store_errors_unmapped:
  "(\<forall>m. fst (deleteCountry R san i hard s) \<noteq> Inl (NotFoundError m))
   \<and> (\<forall>m. fst (deleteCountry R san i hard s) \<noteq> Inl (AlreadyExistsError m))
   \<and> (country_delete R (where_none\<lparr>where_id := Some i\<rparr>) s = (Inl e, s') \<longrightarrow>
        deleteCountry R san i True s = (Inl (StoreError e), s'))
   \<and> (country_update R (where_none\<lparr>where_id := Some i\<rparr>) (data_deleted True) s = (Inl e, s') \<longrightarrow>
        deleteCountry R san i False s = (Inl (StoreError e), s'))
   \<and> (country_update R (where_none\<lparr>where_id := Some i\<rparr>) (data_deleted True) s = (Inr c, s') \<longrightarrow>
        visit_updateMany R i True s' = (Inl e, s'') \<longrightarrow>
        deleteCountry R san i False s = (Inl (StoreError e), s''))
   \<and> (\<not> list_ex (\<lambda>c. id_country c = i) (countries t) \<longrightarrow>
        deleteCountry prisma san' i hard' t = (Inl (StoreError P2025), t))"
proof (intro conjI allI impI)
  show "fst (deleteCountry R san i hard s) \<noteq> Inl (NotFoundError m)" for m
    by (simp add: deleteCountry_def split: prod.splits sum.splits)
  show "fst (deleteCountry R san i hard s) \<noteq> Inl (AlreadyExistsError m)" for m
    by (simp add: deleteCountry_def split: prod.splits sum.splits)
  show "deleteCountry R san i True s = (Inl (StoreError e), s')"
    if "country_delete R (where_none\<lparr>where_id := Some i\<rparr>) s = (Inl e, s')"
    using that by (simp add: deleteCountry_def)
  show "deleteCountry R san i False s = (Inl (StoreError e), s')"
    if "country_update R (where_none\<lparr>where_id := Some i\<rparr>) (data_deleted True) s = (Inl e, s')"
    using that by (simp add: deleteCountry_def)
  show "deleteCountry R san i False s = (Inl (StoreError e), s'')"
    if "country_update R (where_none\<lparr>where_id := Some i\<rparr>) (data_deleted True) s = (Inr c, s')"
      and "visit_updateMany R i True s' = (Inl e, s'')"
    using that by (simp add: deleteCountry_def)
  show "deleteCountry prisma san' i hard' t = (Inl (StoreError P2025), t)"
    if "\<not> list_ex (\<lambda>c. id_country c = i) (countries t)"
  proof -
    from that have "find (\<lambda>c. id_country c = i) (countries t) = None"
      by (rule find_None_list_ex[THEN iffD2])
    then show ?thesis
      by (cases hard') (simp_all add: deleteCountry_hard_prisma deleteCountry_soft_prisma)
  qed
qed

theorem deleteCountry_store_errors_unmapped_witness:
  "deleteCountry failing_repo name 1 True sample_store
     = (Inl (StoreError (PrismaClientOtherError ''connection lost'')), sample_store)
   \<and> deleteCountry P2010_repo name 1 False sample_store
     = (Inl (StoreError (PrismaClientKnownRequestError ''P2010'')), sample_store)
   \<and> deleteCountry failing_repo name 1 False sample_store
     = (Inl (StoreError (PrismaClientOtherError ''timed out'')), spain_deleted_store)
   \<and> \<not> list_ex (\<lambda>c. id_country c = 7) (countries sample_store)
   \<and> deleteCountry prisma name 7 True sample_store = (Inl (StoreError P2025), sample_store)
   \<and> deleteCountry prisma name 7 False sample_store = (Inl (StoreError P2025), sample_store)"
proof -
  have p1: "country_delete failing_repo (where_none\<lparr>where_id := Some 1\<rparr>) sample_store
              = (Inl (PrismaClientOtherError ''connection lost''), sample_store)"
    by (simp add: failing_repo_def)
  have p2: "country_update P2010_repo (where_none\<lparr>where_id := Some 1\<rparr>) (data_deleted True)
              sample_store = (Inl (PrismaClientKnownRequestError ''P2010''), sample_store)"
    by (simp add: P2010_repo_def)
  have p3: "country_update failing_repo (where_none\<lparr>where_id := Some 1\<rparr>) (data_deleted True)
              sample_store = (Inr (spain\<lparr>deleted := True\<rparr>), spain_deleted_store)"
    by (simp add: failing_repo_def prisma_country_update_def sample_store_def spain_def peru_def
        apply_data_def data_deleted_def unique_conflict_def spain_deleted_store_def Let_def)
  have p4: "visit_updateMany failing_repo 1 True spain_deleted_store
              = (Inl (PrismaClientOtherError ''timed out''), spain_deleted_store)"
    by (simp add: failing_repo_def)
  have p5: "\<not> list_ex (\<lambda>c. id_country c = 7) (countries sample_store)"
    by (simp add: sample_store_def spain_def peru_def)
  have c1: "deleteCountry failing_repo name 1 True sample_store
     = (Inl (StoreError (PrismaClientOtherError ''connection lost'')), sample_store)"
    using p1 deleteCountry_store_errors_unmapped [where R = failing_repo and i = 1
        and s = sample_store and e = "PrismaClientOtherError ''connection lost''"
        and s' = sample_store and san = name and hard = True and c = spain
        and s'' = sample_store and t = sample_store and san' = name and hard' = True]
    by simp
  have c2: "deleteCountry P2010_repo name 1 False sample_store
     = (Inl (StoreError (PrismaClientKnownRequestError ''P2010'')), sample_store)"
    using p2 deleteCountry_store_errors_unmapped [where R = P2010_repo and i = 1
        and s = sample_store and e = "PrismaClientKnownRequestError ''P2010''"
        and s' = sample_store and san = name and hard = False and c = spain
        and s'' = sample_store and t = sample_store and san' = name and hard' = True]
    by simp
  have c3: "deleteCountry failing_repo name 1 False sample_store
     = (Inl (StoreError (PrismaClientOtherError ''timed out'')), spain_deleted_store)"
    using p3 p4 deleteCountry_store_errors_unmapped [where R = failing_repo and i = 1
        and s = sample_store and e = "PrismaClientOtherError ''timed out''"
        and c = "spain\<lparr>deleted := True\<rparr>" and hard = False
        and s' = spain_deleted_store and s'' = spain_deleted_store and san = name
        and t = sample_store and san' = name and hard' = True]
    by simp
  have c4: "deleteCountry prisma name 7 True sample_store = (Inl (StoreError P2025), sample_store)"
    using p5 deleteCountry_store_errors_unmapped [where R = failing_repo and i = 7
        and s = sample_store and e = "PrismaClientOtherError ''timed out''"
        and c = spain and hard = False
        and s' = sample_store and s'' = sample_store and san = name
        and t = sample_store and san' = name and hard' = True]
    by simp
  have c5: "deleteCountry prisma name 7 False sample_store = (Inl (StoreError P2025), sample_store)"
    using p5 deleteCountry_store_errors_unmapped [where R = failing_repo and i = 7
        and s = sample_store and e = "PrismaClientOtherError ''timed out''"
        and c = spain and hard = False
        and s' = sample_store and s'' = sample_store and san = name
        and t = sample_store and san' = name and hard' = False]
    by simp
  show ?thesis using c1 c2 c3 c4 c5 p5 by simp
qed

lemma map_replace_self:
  "distinct (map k xs) \<Longrightarrow> x \<in> set xs \<Longrightarrow> map (\<lambda>r. if k r = k x then x else r) xs = xs"
proof -
  assume d: "distinct (map k xs)" and x: "x \<in> set xs"
  from d have "inj_on k (set xs)" by (simp add: distinct_map)
  with x have "(if k r = k x then x else r) = r" if "r \<in> set xs" for r
    using that by (auto dest: inj_onD)
  then show ?thesis by (simp add: map_idI)
qed

lemma filter_key_length_one:
  "distinct (map k xs) \<Longrightarrow> x \<in> set xs \<Longrightarrow> length (filter (\<lambda>r. k r = k x) xs) = 1"
proof (induction xs)
  case Nil
  then show ?case by simp
next
  case (Cons y ys)
  show ?case
  proof (cases "y = x")
    case True
    then have "filter (\<lambda>r. k r = k x) ys = []"
      using Cons.prems by (auto simp: filter_empty_conv image_iff)
    with True show ?thesis by simp
  next
    case False
    then have "x \<in> set ys" using Cons.prems by simp
    moreover have "k y \<noteq> k x" using Cons.prems \<open>x \<in> set ys\<close> by (auto simp: image_iff)
    ultimately show ?thesis using Cons by simp
  qed
qed

lemma apply_data_create_fields:
  "apply_data (data_of_create d) c =
     c\<lparr>name := name d, abbreviation_country := abbreviation_country d, details := details d\<rparr>"
  by (simp add: apply_data_def data_of_create_def)

lemma apply_data_create_idem:
  "name c = name d \<Longrightarrow> abbreviation_country c = abbreviation_country d \<Longrightarrow>
   details c = details d \<Longrightarrow> apply_data (data_of_create d) c = c"
  by (simp add: apply_data_create_fields)

lemma store_ok_upsertCountry:
  "store_ok s \<Longrightarrow> store_ok (snd (upsertCountry prisma san d s))"
  using store_ok_upsert [of s "where_none\<lparr>where_abbreviation := Some (abbreviation_country d)\<rparr>"
      d "data_of_create d"]
  by (cases "prisma_country_upsert
               (where_none\<lparr>where_abbreviation := Some (abbreviation_country d)\<rparr>)
               d (data_of_create d) s")
     (auto simp add: upsertCountry_def split: sum.splits)

text \<open>A stored row that already carries the payload: upserting the payload changes nothing.\<close>

lemma upsertCountry_fixpoint:
  assumes ok: "store_ok s" and cin: "c \<in> set (countries s)"
    and f: "name c = name d" "abbreviation_country c = abbreviation_country d" "details c = details d"
  shows "upsertCountry prisma san d s = (Inr (san c), s)"
proof -
  have fnd: "find (\<lambda>r. abbreviation_country r = abbreviation_country d) (countries s) = Some c"
    using find_distinct_key [of abbreviation_country "countries s" c] ok cin f(2)
    by (simp add: store_ok_def)
  have same: "apply_data (data_of_create d) c = c"
    using f by (rule apply_data_create_idem)
  have nc: "\<not> unique_conflict c (countries s)"
    using ok cin by (rule no_conflict_same_keys) simp_all
  have "map (\<lambda>r. if id_country r = id_country c then c else r) (countries s) = countries s"
    using ok cin by (intro map_replace_self) (simp_all add: store_ok_def)
  then show ?thesis
    using fnd same nc by (simp add: upsertCountry_prisma)
qed

text \<open>After a successful upsert the store holds a row carrying the payload.\<close>

lemma upsertCountry_success_row:
  assumes "upsertCountry prisma san d s = (Inr out, s1)"
  shows "\<exists>c\<in>set (countries s1). out = san c \<and> name c = name d \<and>
           abbreviation_country c = abbreviation_country d \<and> details c = details d"
proof (cases "find (\<lambda>c. abbreviation_country c = abbreviation_country d) (countries s)")
  case None
  with assms show ?thesis
    by (auto simp: upsertCountry_prisma new_country_def split: if_splits)
next
  case (Some c)
  then have cin: "c \<in> set (countries s)" by (auto simp: find_Some_iff)
  let ?c' = "apply_data (data_of_create d) c"
  from assms Some have s1: "s1 = s\<lparr>countries :=
        map (\<lambda>r. if id_country r = id_country c then ?c' else r) (countries s)\<rparr>"
    and out: "out = san ?c'"
    by (auto simp: upsertCountry_prisma Let_def split: if_splits)
  have "?c' \<in> set (countries s1)"
    unfolding s1 using cin by (auto simp: image_iff)
  then show ?thesis using out by (auto simp: apply_data_create_fields)
qed

text \<open>
  On a store that keeps its constraints, an upsert is rejected exactly when another
  country, with a different abbreviation, already has the name of the payload.
\<close>

lemma upsertCountry_fails_iff:
  assumes ok: "store_ok s"
  shows "isl (fst (upsertCountry prisma san d s)) \<longleftrightarrow>
           list_ex (\<lambda>r. name r = name d \<and> abbreviation_country r \<noteq> abbreviation_country d)
             (countries s)"
proof (cases "find (\<lambda>c. abbreviation_country c = abbreviation_country d) (countries s)")
  case None
  then have "\<forall>r\<in>set (countries s). abbreviation_country r \<noteq> abbreviation_country d"
    by (auto simp: find_None_iff)
  then show ?thesis
    using None by (auto simp: upsertCountry_prisma list_ex_iff)
next
  case (Some c)
  then have cin: "c \<in> set (countries s)" and ca: "abbreviation_country c = abbreviation_country d"
    by (auto simp: find_Some_iff)
  have inj: "inj_on abbreviation_country (set (countries s))" "inj_on id_country (set (countries s))"
    using ok by (simp_all add: store_ok_def distinct_map)
  have key: "id_country r \<noteq> id_country c \<longleftrightarrow> abbreviation_country r \<noteq> abbreviation_country d"
    if "r \<in> set (countries s)" for r
  proof
    assume "id_country r \<noteq> id_country c"
    then have "r \<noteq> c" by auto
    then show "abbreviation_country r \<noteq> abbreviation_country d"
      using that cin ca inj(1) by (metis inj_onD)
  next
    assume "abbreviation_country r \<noteq> abbreviation_country d"
    then have "r \<noteq> c" using ca by auto
    then show "id_country r \<noteq> id_country c"
      using that cin inj(2) by (metis inj_onD)
  qed
  have "unique_conflict (apply_data (data_of_create d) c) (countries s) \<longleftrightarrow>
          list_ex (\<lambda>r. name r = name d \<and> abbreviation_country r \<noteq> abbreviation_country d)
             (countries s)"
    using key by (auto simp: unique_conflict_def list_ex_iff apply_data_create_fields)
  then show ?thesis
    using Some by (simp add: upsertCountry_prisma Let_def)
qed

text \<open>
  A successful upsert, repeated: the second call returns the same output and writes
  nothing new.
\<close>

lemma upsertCountry_repeat_after_success:
  assumes ok: "store_ok s"
    and first: "upsertCountry prisma san d s = (Inr out, s1)"
  shows "(case find (\<lambda>c. abbreviation_country c = abbreviation_country d) (countries s) of
            None \<Rightarrow> countries s1 = countries s @ [new_country (next_id s) d]
                    \<and> out = san (new_country (next_id s) d)
          | Some c \<Rightarrow> countries s1 =
                        map (\<lambda>r. if id_country r = id_country c
                                 then apply_data (data_of_create d) c else r) (countries s)
                    \<and> out = san (apply_data (data_of_create d) c)
                    \<and> length (countries s1) = length (countries s))
         \<and> upsertCountry prisma san d s1 = (Inr out, s1)
         \<and> length (filter (\<lambda>c. abbreviation_country c = abbreviation_country d) (countries s1)) = 1"
proof (intro conjI)
  show "case find (\<lambda>c. abbreviation_country c = abbreviation_country d) (countries s) of
            None \<Rightarrow> countries s1 = countries s @ [new_country (next_id s) d]
                    \<and> out = san (new_country (next_id s) d)
          | Some c \<Rightarrow> countries s1 =
                        map (\<lambda>r. if id_country r = id_country c
                                 then apply_data (data_of_create d) c else r) (countries s)
                    \<and> out = san (apply_data (data_of_create d) c)
                    \<and> length (countries s1) = length (countries s)"
    using first by (auto simp: upsertCountry_prisma Let_def split: option.splits if_splits)
  have ok1: "store_ok s1"
    using store_ok_upsertCountry [OF ok, of san d] first by simp
  from upsertCountry_success_row [OF first] obtain c where
    c: "c \<in> set (countries s1)" "out = san c" "name c = name d"
      "abbreviation_country c = abbreviation_country d" "details c = details d"
    by blast
  show "upsertCountry prisma san d s1 = (Inr out, s1)"
    using upsertCountry_fixpoint [OF ok1 c(1) c(3) c(4) c(5), of san] c(2) by simp
  show "length (filter (\<lambda>c. abbreviation_country c = abbreviation_country d) (countries s1)) = 1"
    using filter_key_length_one [of abbreviation_country "countries s1" c] ok1 c(1) c(4)
    by (simp add: store_ok_def)
qed

text \<open>A rejected upsert is the store's uniqueness violation, and it writes nothing.\<close>

lemma upsertCountry_rejected:
  "isl (fst (upsertCountry prisma san d s)) \<Longrightarrow>
   upsertCountry prisma san d s = (Inl (StoreError P2002), s)"
  by (auto simp: upsertCountry_prisma Let_def split: option.splits if_splits)

text \<open>
  A record whose name another country already has, under an abbreviation that is not
  stored: the upsert is rejected, however often it is called, and no row with that
  abbreviation is stored afterwards.
\<close>

theorem upsertCountry_name_clash_counterexample:
  "upsertCountry prisma name spain_dto sample_store = (Inl (StoreError P2002), sample_store)
   \<and> upsertCountry prisma name spain_dto (snd (upsertCountry prisma name spain_dto sample_store))
       = (Inl (StoreError P2002), sample_store)
   \<and> abbreviation_country spain_dto = ''CL''
   \<and> map abbreviation_country
         (countries (snd (upsertCountry prisma name spain_dto
                            (snd (upsertCountry prisma name spain_dto sample_store)))))
       = [''ES'', ''PE'']
   \<and> count_list
         (map abbreviation_country
            (countries (snd (upsertCountry prisma name spain_dto
                               (snd (upsertCountry prisma name spain_dto sample_store))))))
         (abbreviation_country spain_dto) \<noteq> 1"
proof -
  have r: "upsertCountry prisma name spain_dto sample_store
             = (Inl (StoreError P2002), sample_store)"
    by (simp add: upsertCountry_prisma sample_store_def spain_def peru_def spain_dto_def)
  have a: "map abbreviation_country (countries sample_store) = [''ES'', ''PE'']"
    by (simp add: sample_store_def spain_def peru_def)
  show ?thesis
    unfolding r snd_conv a by (simp add: spain_dto_def)
qed

text \<open>
  C2. \<open>upsert(R)\<close> (\<^verbatim>\<open>upsertCountry\<close>) is keyed by the abbreviation alone. On a store
  that keeps its constraints, for every record \<open>R\<close> whose name is not held by a stored
  country with another abbreviation, the upsert succeeds: it rewrites the row whose
  abbreviation is that of \<open>R\<close> (the number of rows stays) or, when there is none, appends
  a new row; a second \<open>upsert(R)\<close> then succeeds with the same output and leaves the store
  as it is, and exactly one stored row carries the abbreviation of \<open>R\<close>. When a stored
  country with another abbreviation has the name of \<open>R\<close>, the uniqueness violation of
  the store comes back unmapped and nothing is written.
\<close>

theorem upsertCountry_keyed_by_abbreviation:
  assumes ok: "store_ok s"
  shows "(\<not> list_ex (\<lambda>r. name r = name d \<and> abbreviation_country r \<noteq> abbreviation_country d)
              (countries s) \<longrightarrow>
            (\<exists>out s1.
               upsertCountry prisma san d s = (Inr out, s1)
               \<and> (case find (\<lambda>c. abbreviation_country c = abbreviation_country d) (countries s) of
                     None \<Rightarrow> countries s1 = countries s @ [new_country (next_id s) d]
                             \<and> out = san (new_country (next_id s) d)
                   | Some c \<Rightarrow> countries s1 =
                                 map (\<lambda>r. if id_country r = id_country c
                                          then apply_data (data_of_create d) c else r)
                                   (countries s)
                             \<and> out = san (apply_data (data_of_create d) c)
                             \<and> length (countries s1) = length (countries s))
               \<and> upsertCountry prisma san d s1 = (Inr out, s1)
               \<and> length (filter (\<lambda>c. abbreviation_country c = abbreviation_country d)
                            (countries s1)) = 1))
         \<and> (list_ex (\<lambda>r. name r = name d \<and> abbreviation_country r \<noteq> abbreviation_country d)
              (countries s) \<longrightarrow>
            upsertCountry prisma san d s = (Inl (StoreError P2002), s))"
proof (intro conjI impI)
  assume "\<not> list_ex (\<lambda>r. name r = name d \<and> abbreviation_country r \<noteq> abbreviation_country d)
              (countries s)"
  then have "\<not> isl (fst (upsertCountry prisma san d s))"
    using upsertCountry_fails_iff [OF ok, of san d] by simp
  then obtain out s1 where first: "upsertCountry prisma san d s = (Inr out, s1)"
    by (cases "upsertCountry prisma san d s"; cases "fst (upsertCountry prisma san d s)") auto
  from upsertCountry_repeat_after_success [OF ok first] first
  show "\<exists>out s1.
               upsertCountry prisma san d s = (Inr out, s1)
               \<and> (case find (\<lambda>c. abbreviation_country c = abbreviation_country d) (countries s) of
                     None \<Rightarrow> countries s1 = countries s @ [new_country (next_id s) d]
                             \<and> out = san (new_country (next_id s) d)
                   | Some c \<Rightarrow> countries s1 =
                                 map (\<lambda>r. if id_country r = id_country c
                                          then apply_data (data_of_create d) c else r)
                                   (countries s)
                             \<and> out = san (apply_data (data_of_create d) c)
                             \<and> length (countries s1) = length (countries s))
               \<and> upsertCountry prisma san d s1 = (Inr out, s1)
               \<and> length (filter (\<lambda>c. abbreviation_country c = abbreviation_country d)
                            (countries s1)) = 1"
    by blast
next
  assume "list_ex (\<lambda>r. name r = name d \<and> abbreviation_country r \<noteq> abbreviation_country d)
              (countries s)"
  then have "isl (fst (upsertCountry prisma san d s))"
    using upsertCountry_fails_iff [OF ok, of san d] by simp
  then show "upsertCountry prisma san d s = (Inl (StoreError P2002), s)"
    by (rule upsertCountry_rejected)
qed

theorem upsertCountry_keyed_by_abbreviation_witness:
  "store_ok sample_store
   \<and> \<not> list_ex (\<lambda>r. name r = name chile_dto
                       \<and> abbreviation_country r \<noteq> abbreviation_country chile_dto)
          (countries sample_store)
   \<and> upsertCountry prisma name chile_dto sample_store = (Inr ''Chile'', chile_store)
   \<and> upsertCountry prisma name chile_dto chile_store = (Inr ''Chile'', chile_store)
   \<and> length (filter (\<lambda>c. abbreviation_country c = ''CL'') (countries chile_store)) = 1
   \<and> \<not> list_ex (\<lambda>r. name r = name peru_dto
                       \<and> abbreviation_country r \<noteq> abbreviation_country peru_dto)
          (countries sample_store)
   \<and> upsertCountry prisma name peru_dto sample_store = (Inr ''Republic of Peru'', peru_renamed_store)
   \<and> upsertCountry prisma name peru_dto peru_renamed_store = (Inr ''Republic of Peru'', peru_renamed_store)
   \<and> length (filter (\<lambda>c. abbreviation_country c = ''PE'') (countries peru_renamed_store)) = 1
   \<and> list_ex (\<lambda>r. name r = name spain_dto
                     \<and> abbreviation_country r \<noteq> abbreviation_country spain_dto)
        (countries sample_store)
   \<and> upsertCountry prisma name spain_dto sample_store = (Inl (StoreError P2002), sample_store)"
proof -
  have f1: "\<not> list_ex (\<lambda>r. name r = name chile_dto
                       \<and> abbreviation_country r \<noteq> abbreviation_country chile_dto)
          (countries sample_store)"
    by (simp add: sample_store_def spain_def peru_def chile_dto_def)
  have f2: "\<not> list_ex (\<lambda>r. name r = name peru_dto
                       \<and> abbreviation_country r \<noteq> abbreviation_country peru_dto)
          (countries sample_store)"
    by (simp add: sample_store_def spain_def peru_def peru_dto_def)
  have f3: "list_ex (\<lambda>r. name r = name spain_dto
                     \<and> abbreviation_country r \<noteq> abbreviation_country spain_dto)
        (countries sample_store)"
    by (simp add: sample_store_def spain_def peru_def spain_dto_def)
  have p1: "upsertCountry prisma name chile_dto sample_store = (Inr ''Chile'', chile_store)"
    by (simp add: upsertCountry_prisma sample_store_def chile_store_def spain_def peru_def
        chile_dto_def new_country_def)
  have p2: "upsertCountry prisma name peru_dto sample_store
              = (Inr ''Republic of Peru'', peru_renamed_store)"
    by (simp add: upsertCountry_prisma sample_store_def peru_renamed_store_def spain_def peru_def
        peru_dto_def peru_renamed_def apply_data_def data_of_create_def unique_conflict_def)
  have c1: "upsertCountry prisma name chile_dto chile_store = (Inr ''Chile'', chile_store)
            \<and> length (filter (\<lambda>c. abbreviation_country c = ''CL'') (countries chile_store)) = 1"
  proof -
    have "\<exists>out s1. (Inr ''Chile'', chile_store) = (Inr out, s1)
            \<and> upsertCountry prisma name chile_dto s1 = (Inr out, s1)
            \<and> length (filter (\<lambda>c. abbreviation_country c = abbreviation_country chile_dto)
                         (countries s1)) = 1"
      using upsertCountry_keyed_by_abbreviation [OF sample_store_ok, of chile_dto name] f1
      unfolding p1 by blast
    then show ?thesis by (simp add: chile_dto_def)
  qed
  have c2: "upsertCountry prisma name peru_dto peru_renamed_store
              = (Inr ''Republic of Peru'', peru_renamed_store)
            \<and> length (filter (\<lambda>c. abbreviation_country c = ''PE'') (countries peru_renamed_store)) = 1"
  proof -
    have "\<exists>out s1. (Inr ''Republic of Peru'', peru_renamed_store) = (Inr out, s1)
            \<and> upsertCountry prisma name peru_dto s1 = (Inr out, s1)
            \<and> length (filter (\<lambda>c. abbreviation_country c = abbreviation_country peru_dto)
                         (countries s1)) = 1"
      using upsertCountry_keyed_by_abbreviation [OF sample_store_ok, of peru_dto name] f2
      unfolding p2 by blast
    then show ?thesis by (simp add: peru_dto_def)
  qed
  have c3: "upsertCountry prisma name spain_dto sample_store
              = (Inl (StoreError P2002), sample_store)"
    using upsertCountry_keyed_by_abbreviation [OF sample_store_ok, of spain_dto name] f3
    by simp
  show ?thesis
    using sample_store_ok f1 f2 f3 p1 p2 c1 c2 c3 by simp
qed

text \<open>
  C5. When \<open>upsert(record)\<close> matches by abbreviation a country whose \<open>deleted\<close> flag is
  true, it writes the name and the descriptive fields of the record and nothing else (or,
  on a name held by another country, the store rejects and writes nothing): the row of
  that identifier is still stored afterwards and still has \<open>deleted = true\<close>.
\<close>

theorem upsertCountry_keeps_deleted_flag:
  assumes ok: "store_ok s" and cin: "c \<in> set (countries s)" and del: "deleted c"
    and abbr: "abbreviation_country c = abbreviation_country d"
  shows "upsertCountry prisma san d s =
           (if unique_conflict (c\<lparr>name := name d, details := details d\<rparr>) (countries s)
            then (Inl (StoreError P2002), s)
            else (Inr (san (c\<lparr>name := name d, details := details d\<rparr>)),
                  s\<lparr>countries :=
                      map (\<lambda>r. if id_country r = id_country c
                               then c\<lparr>name := name d, details := details d\<rparr> else r)
                        (countries s)\<rparr>))
         \<and> (\<exists>c'. find (\<lambda>r. id_country r = id_country c)
                     (countries (snd (upsertCountry prisma san d s))) = Some c'
                 \<and> deleted c' \<and> abbreviation_country c' = abbreviation_country d)"
proof
  let ?c' = "c\<lparr>name := name d, details := details d\<rparr>"
  have fnd: "find (\<lambda>r. abbreviation_country r = abbreviation_country d) (countries s) = Some c"
    using find_distinct_key [of abbreviation_country "countries s" c] ok cin abbr
    by (simp add: store_ok_def)
  have c': "apply_data (data_of_create d) c = ?c'"
    using abbr by (simp add: apply_data_create_fields)
  show eq: "upsertCountry prisma san d s =
           (if unique_conflict ?c' (countries s)
            then (Inl (StoreError P2002), s)
            else (Inr (san ?c'),
                  s\<lparr>countries :=
                      map (\<lambda>r. if id_country r = id_country c then ?c' else r) (countries s)\<rparr>))"
    using fnd c' by (simp add: upsertCountry_prisma Let_def)
  let ?s1 = "snd (upsertCountry prisma san d s)"
  have ok1: "store_ok ?s1" using ok by (rule store_ok_upsertCountry)
  show "\<exists>c'. find (\<lambda>r. id_country r = id_country c) (countries ?s1) = Some c'
                 \<and> deleted c' \<and> abbreviation_country c' = abbreviation_country d"
  proof (cases "unique_conflict ?c' (countries s)")
    case True
    then have "?s1 = s" using eq by simp
    moreover have "find (\<lambda>r. id_country r = id_country c) (countries s) = Some c"
      using find_distinct_key [of id_country "countries s" c] ok cin by (simp add: store_ok_def)
    ultimately show ?thesis using del abbr by simp
  next
    case False
    then have rows: "countries ?s1 =
        map (\<lambda>r. if id_country r = id_country c then ?c' else r) (countries s)"
      using eq by simp
    have "?c' \<in> set (countries ?s1)"
      unfolding rows using cin by (auto simp: image_iff)
    then have "find (\<lambda>r. id_country r = id_country ?c') (countries ?s1) = Some ?c'"
      using ok1 by (intro find_distinct_key) (simp_all add: store_ok_def)
    then show ?thesis using del abbr by simp
  qed
qed

theorem upsertCountry_keeps_deleted_flag_witness:
  "store_ok sample_store \<and> peru \<in> set (countries sample_store) \<and> deleted peru
   \<and> abbreviation_country peru = abbreviation_country peru_dto
   \<and> upsertCountry prisma (\<lambda>c. c) peru_dto sample_store = (Inr peru_renamed, peru_renamed_store)
   \<and> deleted peru_renamed \<and> id_country peru_renamed = id_country peru
   \<and> find (\<lambda>r. id_country r = 2) (countries peru_renamed_store) = Some peru_renamed"
proof -
  have h: "peru \<in> set (countries sample_store)" "deleted peru"
    "abbreviation_country peru = abbreviation_country peru_dto"
    by (simp_all add: sample_store_def peru_def peru_dto_def)
  show ?thesis
    using upsertCountry_keeps_deleted_flag [OF sample_store_ok h, of "\<lambda>c. c"] sample_store_ok h
    by (simp add: sample_store_def peru_renamed_store_def spain_def peru_def
        peru_dto_def peru_renamed_def unique_conflict_def)
qed




lemma filter_active_after_soft_delete:
  "deleted c' \<Longrightarrow>
   filter (\<lambda>r. \<not> deleted r) (map (\<lambda>r. if id_country r = i then c' else r) xs)
     = filter (\<lambda>r. \<not> deleted r \<and> id_country r \<noteq> i) xs"
  by (induction xs) auto

lemma chile_store_ok: "store_ok chile_store"
  by (simp add: store_ok_def chile_store_def sample_store_def spain_def peru_def
      new_country_def chile_dto_def)

text \<open>
  C4. For a stored country \<open>C\<close>, \<open>delete(C.id, hard = false)\<close> sets \<open>deleted\<close> on \<open>C\<close>, then
  on every visit whose \<open>countryId\<close> is \<open>C.id\<close>, and returns the sanitized updated country;
  afterwards every row with that identifier and every visit referring to it is flagged,
  and \<open>list()\<close> gives exactly the active countries other than \<open>C\<close>.
\<close>

theorem deleteCountry_soft_cascades_to_visits:
  assumes ok: "store_ok s" and cin: "c \<in> set (countries s)"
  shows "(let s' = s\<lparr>countries := map (\<lambda>r. if id_country r = id_country c
                                          then c\<lparr>deleted := True\<rparr> else r) (countries s),
                      visits := map (\<lambda>v. if countryId v = id_country c
                                       then v\<lparr>visit_deleted := True\<rparr> else v) (visits s)\<rparr>
          in deleteCountry prisma san (id_country c) False s = (Inr (san (c\<lparr>deleted := True\<rparr>)), s')
           \<and> list_all deleted (filter (\<lambda>r. id_country r = id_country c) (countries s'))
           \<and> list_all visit_deleted (filter (\<lambda>v. countryId v = id_country c) (visits s'))
           \<and> getCountries prisma san' s' =
               (if filter (\<lambda>r. \<not> deleted r \<and> id_country r \<noteq> id_country c) (countries s) = []
                then (Inl (NotFoundError ''Countries not found''), s')
                else (Inr (map san' (filter (\<lambda>r. \<not> deleted r \<and> id_country r \<noteq> id_country c)
                                       (countries s))), s')))"
proof -
  let ?c' = "c\<lparr>deleted := True\<rparr>"
  let ?rows = "map (\<lambda>r. if id_country r = id_country c then ?c' else r) (countries s)"
  let ?vs = "map (\<lambda>v. if countryId v = id_country c then v\<lparr>visit_deleted := True\<rparr> else v)
               (visits s)"
  let ?s' = "s\<lparr>countries := ?rows, visits := ?vs\<rparr>"
  have fnd: "find (\<lambda>r. id_country r = id_country c) (countries s) = Some c"
    using find_distinct_key [of id_country "countries s" c] ok cin by (simp add: store_ok_def)
  have c': "apply_data (data_deleted True) c = ?c'"
    by (simp add: apply_data_def data_deleted_def)
  have nc: "\<not> unique_conflict ?c' (countries s)"
    using ok cin by (rule no_conflict_same_keys) simp_all
  have run: "deleteCountry prisma san (id_country c) False s = (Inr (san ?c'), ?s')"
    using fnd c' nc by (simp add: deleteCountry_soft_prisma Let_def)
  have rows: "list_all deleted (filter (\<lambda>r. id_country r = id_country c) ?rows)"
    by (auto simp: list_all_iff)
  have vs: "list_all visit_deleted (filter (\<lambda>v. countryId v = id_country c) ?vs)"
    by (auto simp: list_all_iff)
  have active: "filter (\<lambda>r. \<not> deleted r) ?rows
                  = filter (\<lambda>r. \<not> deleted r \<and> id_country r \<noteq> id_country c) (countries s)"
    by (rule filter_active_after_soft_delete) simp
  have lst: "getCountries prisma san' ?s' =
               (if filter (\<lambda>r. \<not> deleted r \<and> id_country r \<noteq> id_country c) (countries s) = []
                then (Inl (NotFoundError ''Countries not found''), ?s')
                else (Inr (map san' (filter (\<lambda>r. \<not> deleted r \<and> id_country r \<noteq> id_country c)
                                       (countries s))), ?s'))"
    unfolding getCountries_prisma using active by simp
  show ?thesis
    unfolding Let_def using run rows vs lst by simp
qed

theorem deleteCountry_soft_cascades_to_visits_witness:
  "store_ok chile_store \<and> spain \<in> set (countries chile_store)
   \<and> deleteCountry prisma name 1 False chile_store = (Inr ''Spain'', chile_store_spain_deleted)
   \<and> getCountries prisma name chile_store = (Inr [''Spain'', ''Chile''], chile_store)
   \<and> getCountries prisma name chile_store_spain_deleted = (Inr [''Chile''], chile_store_spain_deleted)"
proof -
  have h: "spain \<in> set (countries chile_store)"
    by (simp add: chile_store_def sample_store_def)
  have l: "getCountries prisma name chile_store = (Inr [''Spain'', ''Chile''], chile_store)"
    by (simp add: getCountries_prisma chile_store_def sample_store_def spain_def peru_def
        new_country_def chile_dto_def)
  show ?thesis
    using deleteCountry_soft_cascades_to_visits [OF chile_store_ok h, of name name] chile_store_ok h l
    by (simp add: chile_store_def sample_store_def chile_store_spain_deleted_def spain_def peru_def
        new_country_def chile_dto_def sample_visits_def Let_def)
qed

text \<open>
  C6. For a stored country \<open>C\<close>, \<open>delete(C.id, hard = true)\<close> removes the row of \<open>C\<close> and
  nothing else, returns the sanitized last state of \<open>C\<close>, and leaves every visit as it
  was: the service issues no query on the visits.
\<close>

theorem deleteCountry_hard_leaves_visits:
  assumes ok: "store_ok s" and cin: "c \<in> set (countries s)"
  shows "deleteCountry prisma san (id_country c) True s
           = (Inr (san c), s\<lparr>countries := filter (\<lambda>r. id_country r \<noteq> id_country c) (countries s)\<rparr>)
         \<and> visits (snd (deleteCountry prisma san (id_country c) True s)) = visits s
         \<and> \<not> list_ex (\<lambda>r. id_country r = id_country c)
               (countries (snd (deleteCountry prisma san (id_country c) True s)))
         \<and> length (countries (snd (deleteCountry prisma san (id_country c) True s)))
             = length (countries s) - 1"
proof -
  have fnd: "find (\<lambda>r. id_country r = id_country c) (countries s) = Some c"
    using find_distinct_key [of id_country "countries s" c] ok cin by (simp add: store_ok_def)
  have run: "deleteCountry prisma san (id_country c) True s
           = (Inr (san c), s\<lparr>countries := filter (\<lambda>r. id_country r \<noteq> id_country c) (countries s)\<rparr>)"
    using fnd by (simp add: deleteCountry_hard_prisma)
  have one: "length (filter (\<lambda>r. id_country r = id_country c) (countries s)) = 1"
    using ok cin by (intro filter_key_length_one) (simp_all add: store_ok_def)
  have "length (filter (\<lambda>r. id_country r \<noteq> id_country c) (countries s))
          + length (filter (\<lambda>r. id_country r = id_country c) (countries s)) = length (countries s)"
    using sum_length_filter_compl [of "\<lambda>r. id_country r \<noteq> id_country c" "countries s"] by simp
  with one have len: "length (filter (\<lambda>r. id_country r \<noteq> id_country c) (countries s))
                        = length (countries s) - 1"
    by simp
  show ?thesis
    unfolding run using len by (simp add: list_ex_iff)
qed

theorem deleteCountry_hard_leaves_visits_witness:
  "store_ok sample_store \<and> spain \<in> set (countries sample_store)
   \<and> deleteCountry prisma name 1 True sample_store
       = (Inr ''Spain'', \<lparr>countries = [peru], visits = sample_visits, next_id = 3\<rparr>)"
proof -
  have h: "spain \<in> set (countries sample_store)"
    by (simp add: sample_store_def)
  show ?thesis
    using deleteCountry_hard_leaves_visits [OF sample_store_ok h, of name] sample_store_ok h
    by (simp add: sample_store_def spain_def peru_def)
qed











end
